theory Spec2Isabelle
  imports Main "HOL-Library.Sublist"
begin

section \<open>Strings\<close>

text \<open>
  A JavaScript string is modelled as a \<open>string\<close> (a list of 8-bit characters).  The
  raw diagnostics that the error classifier inspects are ASCII; \<open>toLowerCase\<close> maps the
  letters \<open>A\<close> to \<open>Z\<close> to \<open>a\<close> to \<open>z\<close> and leaves every other character alone.
  The Vietnamese user-facing texts of the source are constants that are only passed
  through; a code point beyond ASCII is spelled \<open>[U+XXXX]\<close> in them.
\<close>

definition toLowerCaseChar :: "char \<Rightarrow> char" where
  "toLowerCaseChar c =
     (let n = (of_char c :: nat) in if 65 \<le> n \<and> n \<le> 90 then char_of (n + 32) else c)"

definition toLowerCase :: "string \<Rightarrow> string" where
  "toLowerCase s = map toLowerCaseChar s"

text \<open>\<open>s.includes(sub)\<close>: \<open>sub\<close> occurs in \<open>s\<close> as a contiguous run of characters.\<close>

fun str_includes :: "string \<Rightarrow> string \<Rightarrow> bool" where
  "str_includes [] sub = (sub = [])"
| "str_includes (c # cs) sub = (prefix sub (c # cs) \<or> str_includes cs sub)"

text \<open>
  A value of type \<open>any\<close> as \<open>parseError\<close> reads it: \<open>null\<close> or \<open>undefined\<close>, a
  string, or an object with an optional \<open>message\<close> property and the string its
  \<open>toString()\<close> returns.
\<close>

datatype js_any = JsNullish | JsString string | JsObject "string option" string

text \<open>\<open>error?.message\<close> and \<open>error?.toString()\<close>; \<open>None\<close> is \<open>undefined\<close>.\<close>

fun message_of :: "js_any \<Rightarrow> string option" where
  "message_of JsNullish = None"
| "message_of (JsString s) = None"
| "message_of (JsObject m t) = m"

fun toString_of :: "js_any \<Rightarrow> string option" where
  "toString_of JsNullish = None"
| "toString_of (JsString s) = Some s"
| "toString_of (JsObject m t) = Some t"

text \<open>\<open>a || b\<close> on possibly undefined strings: \<open>undefined\<close> and the empty string are falsy.\<close>

fun js_or :: "string option \<Rightarrow> string option \<Rightarrow> string option" where
  "js_or None b = b"
| "js_or (Some a) b = (if a = [] then b else Some a)"

fun js_or_default :: "string option \<Rightarrow> string \<Rightarrow> string" where
  "js_or_default None d = d"
| "js_or_default (Some a) d = (if a = [] then d else a)"

section \<open>BiometricErrorHandler\<close>

datatype biometry_type = TOUCH_ID | FACE_ID | FINGERPRINT | FACE | IRIS

record BiometricError =
  code :: string
  message :: string
  userMessage :: string
  recoverable :: bool

definition errorMessageOf :: "js_any \<Rightarrow> string" where
  "errorMessageOf error =
     js_or_default (js_or (message_of error) (toString_of error)) ''Unknown error''"

definition parseError :: "js_any \<Rightarrow> BiometricError" where
  "parseError error =
    (let errorMessage = errorMessageOf error;
         lowerMessage = toLowerCase errorMessage
     in
      if str_includes lowerMessage ''cancel'' \<or> str_includes lowerMessage ''user cancel'' then
        \<lparr>code = ''USER_CANCELLED'', message = errorMessage,
         userMessage = ''X[U+00E1]c th[U+1EF1]c [U+0111][U+00E3] b[U+1ECB] h[U+1EE7]y.'',
         recoverable = True\<rparr>
      else if str_includes lowerMessage ''not available'' \<or> str_includes lowerMessage ''not supported'' then
        \<lparr>code = ''NOT_AVAILABLE'', message = errorMessage,
         userMessage = ''[U+0110][U+0103]ng nh[U+1EAD]p sinh tr[U+1EAF]c h[U+1ECD]c kh[U+00F4]ng kh[U+1EA3] d[U+1EE5]ng tr[U+00EA]n thi[U+1EBF]t b[U+1ECB] n[U+00E0]y.'',
         recoverable = False\<rparr>
      else if str_includes lowerMessage ''not enrolled'' \<or> str_includes lowerMessage ''no biometric'' then
        \<lparr>code = ''NOT_ENROLLED'', message = errorMessage,
         userMessage = ''Ch[U+01B0]a thi[U+1EBF]t l[U+1EAD]p [U+0111][U+0103]ng nh[U+1EAD]p sinh tr[U+1EAF]c h[U+1ECD]c tr[U+00EA]n thi[U+1EBF]t b[U+1ECB] n[U+00E0]y. Vui l[U+00F2]ng thi[U+1EBF]t l[U+1EAD]p trong c[U+00E0]i [U+0111][U+1EB7]t thi[U+1EBF]t b[U+1ECB].'',
         recoverable = False\<rparr>
      else if str_includes lowerMessage ''authentication failed'' \<or> str_includes lowerMessage ''failed'' then
        \<lparr>code = ''AUTH_FAILED'', message = errorMessage,
         userMessage = ''[U+0110][U+0103]ng nh[U+1EAD]p sinh tr[U+1EAF]c h[U+1ECD]c th[U+1EA5]t b[U+1EA1]i. Vui l[U+00F2]ng th[U+1EED] l[U+1EA1]i.'',
         recoverable = True\<rparr>
      else if str_includes lowerMessage ''too many'' \<or> str_includes lowerMessage ''lockout'' then
        \<lparr>code = ''LOCKOUT'', message = errorMessage,
         userMessage = ''Qu[U+00E1] nhi[U+1EC1]u l[U+1EA7]n th[U+1EED] th[U+1EA5]t b[U+1EA1]i. Vui l[U+00F2]ng th[U+1EED] l[U+1EA1]i sau ho[U+1EB7]c s[U+1EED] d[U+1EE5]ng m[U+1EAD]t kh[U+1EA9]u thi[U+1EBF]t b[U+1ECB].'',
         recoverable = False\<rparr>
      else if str_includes lowerMessage ''hardware'' \<or> str_includes lowerMessage ''sensor'' then
        \<lparr>code = ''HARDWARE_ERROR'', message = errorMessage,
         userMessage = ''C[U+1EA3]m bi[U+1EBF]n sinh tr[U+1EAF]c h[U+1ECD]c kh[U+00F4]ng kh[U+1EA3] d[U+1EE5]ng. Vui l[U+00F2]ng th[U+1EED] l[U+1EA1]i sau.'',
         recoverable = True\<rparr>
      else if str_includes lowerMessage ''system'' \<or> str_includes lowerMessage ''internal'' then
        \<lparr>code = ''SYSTEM_ERROR'', message = errorMessage,
         userMessage = ''[U+0110][U+00E3] x[U+1EA3]y ra l[U+1ED7]i h[U+1EC7] th[U+1ED1]ng. Vui l[U+00F2]ng th[U+1EED] l[U+1EA1]i.'',
         recoverable = True\<rparr>
      else
        \<lparr>code = ''UNKNOWN_ERROR'', message = errorMessage,
         userMessage = ''[U+0110][U+00E3] x[U+1EA3]y ra l[U+1ED7]i kh[U+00F4]ng mong mu[U+1ED1]n trong qu[U+00E1] tr[U+00EC]nh x[U+00E1]c th[U+1EF1]c sinh tr[U+1EAF]c h[U+1ECD]c.'',
         recoverable = True\<rparr>)"

text \<open>
  A dialog request as \<open>Alert.alert(title, message, buttons)\<close> receives it.  The type
  \<open>'h\<close> stands for the callbacks \<open>onRetry\<close> and \<open>onFallback\<close>.
\<close>

record 'h alert_button =
  btn_text :: string
  btn_style :: "string option"
  onPress :: "'h option"

record 'h alert =
  alert_title :: string
  alert_message :: string
  alert_buttons :: "'h alert_button list"

definition getBiometricTypeName :: "biometry_type option \<Rightarrow> string" where
  "getBiometricTypeName biometryType =
     ''[U+0110][U+0103]ng nh[U+1EAD]p sinh tr[U+1EAF]c h[U+1ECD]c''"

text \<open>The title chosen by the \<open>switch\<close> of \<open>showErrorDialog\<close> for a code that shows a dialog.\<close>

definition dialogTitle :: "string \<Rightarrow> string" where
  "dialogTitle c =
    (if c = ''NOT_AVAILABLE'' then ''Sinh tr[U+1EAF]c h[U+1ECD]c kh[U+00F4]ng kh[U+1EA3] d[U+1EE5]ng''
     else if c = ''NOT_ENROLLED'' then ''Ch[U+01B0]a thi[U+1EBF]t l[U+1EAD]p sinh tr[U+1EAF]c h[U+1ECD]c''
     else if c = ''AUTH_FAILED'' then ''[U+0110][U+0103]ng nh[U+1EAD]p sinh tr[U+1EAF]c h[U+1ECD]c th[U+1EA5]t b[U+1EA1]i''
     else if c = ''LOCKOUT'' then ''Qu[U+00E1] nhi[U+1EC1]u l[U+1EA7]n th[U+1EED]''
     else if c = ''HARDWARE_ERROR'' then ''L[U+1ED7]i c[U+1EA3]m bi[U+1EBF]n''
     else if c = ''SYSTEM_ERROR'' then ''L[U+1ED7]i h[U+1EC7] th[U+1ED1]ng''
     else ''L[U+1ED7]i x[U+00E1]c th[U+1EF1]c'')"

text \<open>
  \<open>showErrorDialog\<close> returns nothing; its one effect is the call of \<open>Alert.alert\<close>.  The
  model returns the dialog request passed to \<open>Alert.alert\<close>, and \<open>None\<close> when the
  function returns without calling it.
\<close>

definition showErrorDialog ::
  "BiometricError \<Rightarrow> biometry_type option \<Rightarrow> 'h option \<Rightarrow> 'h option \<Rightarrow> 'h alert option" where
  "showErrorDialog error biometricType onRetry onFallback =
    (let biometricName = getBiometricTypeName biometricType;
         message = userMessage error
     in
      if code error = ''USER_CANCELLED'' then None
      else
        let title = dialogTitle (code error);
            buttons0 = [];
            buttons1 = (case onFallback of
                          Some f \<Rightarrow> buttons0 @ [\<lparr>btn_text = ''D[U+00F9]ng m[U+1EAD]t kh[U+1EA9]u'',
                                                 btn_style = None, onPress = Some f\<rparr>]
                        | None \<Rightarrow> buttons0);
            buttons2 = (case onRetry of
                          Some r \<Rightarrow> if recoverable error
                                    then buttons1 @ [\<lparr>btn_text = ''Th[U+1EED] l[U+1EA1]i'',
                                                      btn_style = None, onPress = Some r\<rparr>]
                                    else buttons1
                        | None \<Rightarrow> buttons1);
            buttons3 = buttons2 @ [\<lparr>btn_text = (if length buttons2 > 0 then ''H[U+1EE7]y'' else ''OK''),
                                    btn_style = Some ''cancel'', onPress = None\<rparr>]
        in Some \<lparr>alert_title = title, alert_message = message, alert_buttons = buttons3\<rparr>)"

section \<open>The device and the application state\<close>

text \<open>
  A value thrown by a native call, as the \<open>catch\<close> clauses read it: its \<open>message\<close>
  property (\<open>None\<close> when undefined) and the string it converts to in a template
  literal.
\<close>

datatype js_exn = JsExn (exn_message: "string option") (exn_text: string)

text \<open>\<open>error.message && error.message.includes('cancel')\<close> (case-sensitive).\<close>

definition exn_is_cancel :: "js_exn \<Rightarrow> bool" where
  "exn_is_cancel err =
     (case exn_message err of None \<Rightarrow> False | Some m \<Rightarrow> m \<noteq> [] \<and> str_includes m ''cancel'')"

text \<open>The text of \<open>${error.message || error}\<close>.\<close>

definition exn_describe :: "js_exn \<Rightarrow> string" where
  "exn_describe err = js_or_default (exn_message err) (exn_text err)"

text \<open>
  The keychain (the library react-native-keychain) and the preference storage (the
  library AsyncStorage) are not part of the sources.  The native calls below follow
  the external interface of the specification: one credential slot under the fixed
  service name, written by \<open>setGenericPassword\<close>, read by \<open>getGenericPassword\<close> behind
  a biometric challenge, tested by \<open>hasGenericPassword\<close>, deleted by
  \<open>resetGenericPassword\<close>; and a flat key-value store.  What the device does at each
  call (succeed, or reject with a thrown value) is the \<open>device\<close> part of the state,
  which the operations never change and about which the theorems assume only what
  they say.
\<close>

record device =
  supportedBiometry :: "js_exn + biometry_type option"
  setOutcome :: "js_exn option"
  getChallenge :: "js_exn option"
  hasOutcome :: "js_exn option"
  resetOutcome :: "js_exn + bool"
  getAllKeysOutcome :: "js_exn option"
  multiRemoveOutcome :: "js_exn option"

record StoredCredentials =
  username :: string
  password :: string

record User =
  user_id :: string
  user_username :: string
  user_email :: string

datatype native_call =
    GetSupportedBiometryType
  | SetGenericPassword string string
  | GetGenericPassword
  | HasGenericPassword
  | ResetGenericPassword
  | GetAllKeys
  | MultiRemove "string list"

datatype event =
    Native native_call
  | SetUser "User option"
  | SetIsLoading bool
  | SetHasStoredCredentials bool

text \<open>
  The state: the device, the keychain slot, the preference store, the React state of
  \<open>useBiometricAuth\<close> (\<open>st_isAvailable\<close>, \<open>st_hasStoredCredentials\<close>) and of
  \<open>AuthProvider\<close> (\<open>user\<close>, \<open>isLoading\<close>), and the trace of native calls and state
  updates in the order they happen.  A callback reads the React state as it is when
  the callback starts.
\<close>

record world =
  device :: device
  slot :: "StoredCredentials option"
  storage :: "(string \<times> string) list"
  st_isAvailable :: bool
  st_hasStoredCredentials :: bool
  user :: "User option"
  isLoading :: bool
  trace :: "event list"

text \<open>
  An asynchronous function is a state transformer that returns a value or throws
  (rejects): \<open>Inl\<close> is the thrown value.
\<close>

type_synonym 'a io = "world \<Rightarrow> (js_exn + 'a) \<times> world"

definition io_return :: "'a \<Rightarrow> 'a io" where
  "io_return v w = (Inr v, w)"

definition io_bind :: "'a io \<Rightarrow> ('a \<Rightarrow> 'b io) \<Rightarrow> 'b io" where
  "io_bind m f w = (case m w of (Inl e, w1) \<Rightarrow> (Inl e, w1) | (Inr v, w1) \<Rightarrow> f v w1)"

text \<open>\<open>try { body } catch (error) { handler }\<close>\<close>

definition io_try :: "'a io \<Rightarrow> (js_exn \<Rightarrow> 'a io) \<Rightarrow> 'a io" where
  "io_try body handler w =
     (case body w of (Inl e, w1) \<Rightarrow> handler e w1 | (Inr v, w1) \<Rightarrow> (Inr v, w1))"

definition io_read :: "(world \<Rightarrow> 'a) \<Rightarrow> 'a io" where
  "io_read f w = (Inr (f w), w)"

definition record_call :: "native_call \<Rightarrow> world \<Rightarrow> world" where
  "record_call c w = w\<lparr>trace := trace w @ [Native c]\<rparr>"

subsection \<open>Native calls\<close>

text \<open>
  Modelled from the spec: \<open>Keychain.getSupportedBiometryType\<close> of react-native-keychain,
  the query of the biometric capability, answering a biometry type or \<open>null\<close>; the
  callers also provide for a thrown value.
\<close>

definition Keychain_getSupportedBiometryType :: "biometry_type option io" where
  "Keychain_getSupportedBiometryType w =
     (supportedBiometry (device w), record_call GetSupportedBiometryType w)"

text \<open>
  Modelled from the spec: \<open>Keychain.setGenericPassword\<close> of react-native-keychain, the
  write of the secret store, \<open>ok\<close> or a raw error: it overwrites the one slot of the
  service, or throws and leaves the slot alone.
\<close>

definition Keychain_setGenericPassword :: "string \<Rightarrow> string \<Rightarrow> unit io" where
  "Keychain_setGenericPassword u p w =
     (case setOutcome (device w) of
        Some e \<Rightarrow> (Inl e, record_call (SetGenericPassword u p) w)
      | None \<Rightarrow> (Inr (), (record_call (SetGenericPassword u p) w)
                           \<lparr>slot := Some \<lparr>username = u, password = p\<rparr>\<rparr>))"

text \<open>
  Modelled from the spec: \<open>Keychain.getGenericPassword\<close> of react-native-keychain, the
  read behind a biometric challenge: the content of the slot when the challenge passes
  (\<open>false\<close>, here \<open>None\<close>, when the slot is empty), a thrown value when it does not.
\<close>

definition Keychain_getGenericPassword :: "StoredCredentials option io" where
  "Keychain_getGenericPassword w =
     (case getChallenge (device w) of
        Some e \<Rightarrow> (Inl e, record_call GetGenericPassword w)
      | None \<Rightarrow> (Inr (slot w), record_call GetGenericPassword w))"

text \<open>
  Modelled from the spec: \<open>Keychain.hasGenericPassword\<close> of react-native-keychain, the
  existence check without a challenge; the caller also provides for a thrown value.
\<close>

definition Keychain_hasGenericPassword :: "bool io" where
  "Keychain_hasGenericPassword w =
     (case hasOutcome (device w) of
        Some e \<Rightarrow> (Inl e, record_call HasGenericPassword w)
      | None \<Rightarrow> (Inr (slot w \<noteq> None), record_call HasGenericPassword w))"

text \<open>
  Modelled from the spec: \<open>Keychain.resetGenericPassword\<close> of react-native-keychain, the
  deletion of the slot, answering whether it deleted, or throwing.
\<close>

definition Keychain_resetGenericPassword :: "bool io" where
  "Keychain_resetGenericPassword w =
     (case resetOutcome (device w) of
        Inl e \<Rightarrow> (Inl e, record_call ResetGenericPassword w)
      | Inr b \<Rightarrow> (Inr b, (record_call ResetGenericPassword w)
                          \<lparr>slot := (if b then None else slot w)\<rparr>))"

text \<open>
  Modelled from the spec: \<open>getAllKeys\<close> and \<open>multiRemove\<close> of AsyncStorage, the flat
  key-value preference store; either may throw.
\<close>

definition AsyncStorage_getAllKeys :: "string list io" where
  "AsyncStorage_getAllKeys w =
     (case getAllKeysOutcome (device w) of
        Some e \<Rightarrow> (Inl e, record_call GetAllKeys w)
      | None \<Rightarrow> (Inr (map fst (storage w)), record_call GetAllKeys w))"

definition AsyncStorage_multiRemove :: "string list \<Rightarrow> unit io" where
  "AsyncStorage_multiRemove keys w =
     (case multiRemoveOutcome (device w) of
        Some e \<Rightarrow> (Inl e, record_call (MultiRemove keys) w)
      | None \<Rightarrow> (Inr (), (record_call (MultiRemove keys) w)
                           \<lparr>storage := filter (\<lambda>kv. fst kv \<notin> set keys) (storage w)\<rparr>))"

subsection \<open>React state updates\<close>

definition setUser :: "User option \<Rightarrow> unit io" where
  "setUser u w = (Inr (), w\<lparr>user := u, trace := trace w @ [SetUser u]\<rparr>)"

definition setIsLoading :: "bool \<Rightarrow> unit io" where
  "setIsLoading b w = (Inr (), w\<lparr>isLoading := b, trace := trace w @ [SetIsLoading b]\<rparr>)"

definition setHasStoredCredentials :: "bool \<Rightarrow> unit io" where
  "setHasStoredCredentials b w =
     (Inr (), w\<lparr>st_hasStoredCredentials := b, trace := trace w @ [SetHasStoredCredentials b]\<rparr>)"

text \<open>\<open>isAuthenticated: !!user\<close>\<close>

definition isAuthenticated :: "world \<Rightarrow> bool" where
  "isAuthenticated w = (user w \<noteq> None)"

section \<open>BiometricAuthService\<close>

record BiometricCapabilities =
  isAvailable :: bool
  biometryType :: "biometry_type option"
  cap_error :: "string option"

text \<open>
  \<open>BiometricAuthResult\<close>, with the optional \<open>credentials\<close> that \<open>getStoredCredentials\<close>
  adds to it; an absent optional field is \<open>None\<close>.
\<close>

record BiometricAuthResult =
  success :: bool
  error :: "string option"
  cancelled :: "bool option"
  credentials :: "StoredCredentials option"

definition getBiometricCapabilities :: "BiometricCapabilities io" where
  "getBiometricCapabilities =
     io_try
       (io_bind Keychain_getSupportedBiometryType (\<lambda>bt.
          case bt of
            Some t \<Rightarrow> io_return \<lparr>isAvailable = True, biometryType = Some t, cap_error = None\<rparr>
          | None \<Rightarrow> io_return \<lparr>isAvailable = False, biometryType = None,
                       cap_error = Some ''Biometric authentication is not available on this device''\<rparr>))
       (\<lambda>err. io_return \<lparr>isAvailable = False, biometryType = None,
                 cap_error = Some (''Error checking biometric capabilities: '' @ exn_text err)\<rparr>)"

definition storeCredentials :: "string \<Rightarrow> string \<Rightarrow> BiometricAuthResult io" where
  "storeCredentials u p =
     io_try
       (io_bind getBiometricCapabilities (\<lambda>capabilities.
          if \<not> isAvailable capabilities then
            io_return \<lparr>success = False, error = Some ''Biometric authentication is not available'',
                       cancelled = None, credentials = None\<rparr>
          else
            io_bind (Keychain_setGenericPassword u p) (\<lambda>_.
              io_return \<lparr>success = True, error = None, cancelled = None, credentials = None\<rparr>)))
       (\<lambda>err.
          if exn_is_cancel err then
            io_return \<lparr>success = False, error = Some ''Authentication was cancelled by user'',
                       cancelled = Some True, credentials = None\<rparr>
          else
            io_return \<lparr>success = False,
                       error = Some (''Failed to store credentials: '' @ exn_describe err),
                       cancelled = None, credentials = None\<rparr>)"

definition getStoredCredentials :: "BiometricAuthResult io" where
  "getStoredCredentials =
     io_try
       (io_bind getBiometricCapabilities (\<lambda>capabilities.
          if \<not> isAvailable capabilities then
            io_return \<lparr>success = False, error = Some ''Biometric authentication is not available'',
                       cancelled = None, credentials = None\<rparr>
          else
            io_bind Keychain_getGenericPassword (\<lambda>result.
              case result of
                Some c \<Rightarrow>
                  io_return \<lparr>success = True, error = None, cancelled = None,
                             credentials = Some \<lparr>username = username c, password = password c\<rparr>\<rparr>
              | None \<Rightarrow>
                  io_return \<lparr>success = False, error = Some ''No stored credentials found'',
                             cancelled = None, credentials = None\<rparr>)))
       (\<lambda>err.
          if exn_is_cancel err then
            io_return \<lparr>success = False, error = Some ''Authentication was cancelled by user'',
                       cancelled = Some True, credentials = None\<rparr>
          else
            io_return \<lparr>success = False,
                       error = Some (''Failed to retrieve credentials: '' @ exn_describe err),
                       cancelled = None, credentials = None\<rparr>)"

definition hasStoredCredentials :: "bool io" where
  "hasStoredCredentials =
     io_try (io_bind Keychain_hasGenericPassword (\<lambda>result. io_return result))
            (\<lambda>err. io_return False)"

definition removeStoredCredentials :: "BiometricAuthResult io" where
  "removeStoredCredentials =
     io_try
       (io_bind Keychain_resetGenericPassword (\<lambda>ok.
          io_return \<lparr>success = ok,
                     error = (if ok then None else Some ''Failed to remove stored credentials''),
                     cancelled = None, credentials = None\<rparr>))
       (\<lambda>err.
          io_return \<lparr>success = False,
                     error = Some (''Failed to remove credentials: '' @ exn_describe err),
                     cancelled = None, credentials = None\<rparr>)"

section \<open>useBiometricAuth\<close>

definition checkStoredCredentials :: "unit io" where
  "checkStoredCredentials =
     io_try (io_bind hasStoredCredentials (\<lambda>hasCredentials. setHasStoredCredentials hasCredentials))
            (\<lambda>err. setHasStoredCredentials False)"

definition useBiometricAuth_storeCredentials :: "string \<Rightarrow> string \<Rightarrow> BiometricAuthResult io" where
  "useBiometricAuth_storeCredentials u p =
     io_bind (io_read st_isAvailable) (\<lambda>available.
       if \<not> available then
         io_return \<lparr>success = False,
                    error = Some ''Biometric authentication is not available on this device'',
                    cancelled = None, credentials = None\<rparr>
       else
         io_try
           (io_bind (storeCredentials u p) (\<lambda>result.
              io_bind (if success result
                       then io_bind hasStoredCredentials (\<lambda>hasCredentials.
                              setHasStoredCredentials hasCredentials)
                       else io_return ()) (\<lambda>_.
                io_return result)))
           (\<lambda>err.
              io_return \<lparr>success = False,
                         error = Some (''Failed to store credentials: '' @ exn_describe err),
                         cancelled = None, credentials = None\<rparr>))"

definition authenticateWithBiometrics :: "BiometricAuthResult io" where
  "authenticateWithBiometrics =
     io_bind (io_read st_isAvailable) (\<lambda>available.
       if \<not> available then
         io_return \<lparr>success = False,
                    error = Some ''Biometric authentication is not available on this device'',
                    cancelled = None, credentials = None\<rparr>
       else
         io_bind (io_read st_hasStoredCredentials) (\<lambda>stored.
           if \<not> stored then
             io_return \<lparr>success = False,
                        error = Some ''No stored credentials found. Please login with username and password first.'',
                        cancelled = None, credentials = None\<rparr>
           else
             io_try
               (io_bind getStoredCredentials (\<lambda>result. io_return result))
               (\<lambda>err.
                  io_return \<lparr>success = False,
                             error = Some (''Biometric authentication failed: '' @ exn_describe err),
                             cancelled = None, credentials = None\<rparr>)))"

definition useBiometricAuth_removeStoredCredentials :: "BiometricAuthResult io" where
  "useBiometricAuth_removeStoredCredentials =
     io_try
       (io_bind removeStoredCredentials (\<lambda>result.
          io_bind (if success result then setHasStoredCredentials False else io_return ()) (\<lambda>_.
            io_return result)))
       (\<lambda>err.
          io_return \<lparr>success = False,
                     error = Some (''Failed to remove credentials: '' @ exn_describe err),
                     cancelled = None, credentials = None\<rparr>)"

section \<open>UserPreferences\<close>

definition clearAllAppData :: "unit io" where
  "clearAllAppData =
     io_try
       (io_bind AsyncStorage_getAllKeys (\<lambda>allKeys.
          if length allKeys > 0 then AsyncStorage_multiRemove allKeys else io_return ()))
       (\<lambda>err. io_return ())"

section \<open>AuthProvider\<close>

definition MOCK_CREDENTIALS :: StoredCredentials where
  "MOCK_CREDENTIALS = \<lparr>username = ''admin'', password = ''password123''\<rparr>"

text \<open>The simulated delay of one second before the comparison is not modelled.\<close>

definition login :: "string \<Rightarrow> string \<Rightarrow> bool io" where
  "login u p =
     io_bind (setIsLoading True) (\<lambda>_.
       if u = username MOCK_CREDENTIALS \<and> p = password MOCK_CREDENTIALS then
         io_bind (setUser (Some \<lparr>user_id = ''1'', user_username = u,
                                 user_email = u @ ''@example.com''\<rparr>)) (\<lambda>_.
         io_bind (setIsLoading False) (\<lambda>_.
           io_return True))
       else
         io_bind (setIsLoading False) (\<lambda>_.
           io_return False))"

definition logout :: "unit io" where
  "logout =
     io_try
       (io_bind (setUser None) (\<lambda>_.
        io_bind useBiometricAuth_removeStoredCredentials (\<lambda>biometricRemovalResult.
        io_bind clearAllAppData (\<lambda>_.
        io_bind checkStoredCredentials (\<lambda>_.
          io_return ())))))
       (\<lambda>err. setUser None)"

section \<open>LoginScreen: the automatic biometric attempt\<close>

text \<open>
  The values \<open>useAuth()\<close> hands to the screen that the effect reads.
\<close>

record auth_context =
  isBiometricAvailable :: bool
  hasBiometricCredentials :: bool
  ctx_isLoading :: bool
  isBiometricLoading :: bool

text \<open>
  The part of the screen the effect touches: the ref \<open>autoAttemptedRef.current\<close>, the
  state \<open>biometricAttempted\<close>, whether the timer created by \<open>setTimeout\<close> is pending,
  whether the last run of the effect returned its cleanup \<open>() => clearTimeout(timer)\<close>,
  and how often the timer has called \<open>handleBiometricLogin\<close>.
\<close>

record LoginScreen =
  autoAttemptedRef :: bool
  biometricAttempted :: bool
  timer :: bool
  cleanup :: bool
  autoAttempts :: nat

definition initial_screen :: LoginScreen where
  "initial_screen =
     \<lparr>autoAttemptedRef = False, biometricAttempted = False, timer = False, cleanup = False,
      autoAttempts = 0\<rparr>"

text \<open>The body of the effect: set the latch, then start the timer, then return the cleanup.\<close>

definition autoAttemptEffect :: "auth_context \<Rightarrow> LoginScreen \<Rightarrow> LoginScreen" where
  "autoAttemptEffect c s =
     (if isBiometricAvailable c \<and> hasBiometricCredentials c \<and> \<not> ctx_isLoading c
         \<and> \<not> isBiometricLoading c \<and> \<not> biometricAttempted s \<and> \<not> autoAttemptedRef s
      then s\<lparr>autoAttemptedRef := True, timer := True, cleanup := True\<rparr>
      else s\<lparr>cleanup := False\<rparr>)"

text \<open>The cleanup returned by the effect, if the last run returned one: \<open>clearTimeout(timer)\<close>.\<close>

definition runCleanup :: "LoginScreen \<Rightarrow> LoginScreen" where
  "runCleanup s = (if cleanup s then s\<lparr>timer := False, cleanup := False\<rparr> else s)"

text \<open>
  The 500 ms have passed.  A pending timer calls \<open>handleBiometricLogin\<close>, which starts
  with \<open>setBiometricAttempted(true)\<close>; a cleared timer does nothing.
\<close>

definition timerFires :: "LoginScreen \<Rightarrow> LoginScreen" where
  "timerFires s =
     (if timer s
      then s\<lparr>timer := False, biometricAttempted := True, autoAttempts := autoAttempts s + 1\<rparr>
      else s)"

text \<open>
  What happens to the screen.  \<open>Evaluate c\<close>: React evaluates the effect under the
  context \<open>c\<close>, on mount and again whenever one of its dependencies has changed; as for
  every effect, it first runs the cleanup that the previous run returned.  The
  dependencies include \<open>handleBiometricLogin\<close>, which is rebuilt whenever
  \<open>biometricLogin\<close> is, and \<open>AuthProvider\<close> builds a new \<open>biometricLogin\<close> each time it
  renders; so the effect can be evaluated again with the four context values
  unchanged.  \<open>DelayElapsed\<close>: the delay of the timer is over.  \<open>Pressed\<close>: the user
  presses the biometric button or the retry button, which call \<open>handleBiometricLogin\<close>
  themselves.  \<open>Unmount\<close>: the screen goes away and React runs the last cleanup.
\<close>

datatype screen_event = Evaluate auth_context | DelayElapsed | Pressed | Unmount

fun screen_step :: "LoginScreen \<Rightarrow> screen_event \<Rightarrow> LoginScreen" where
  "screen_step s (Evaluate c) = autoAttemptEffect c (runCleanup s)"
| "screen_step s DelayElapsed = timerFires s"
| "screen_step s Pressed = s\<lparr>biometricAttempted := True\<rparr>"
| "screen_step s Unmount = runCleanup s"

definition screen_run :: "screen_event list \<Rightarrow> LoginScreen" where
  "screen_run evs = foldl screen_step initial_screen evs"

section \<open>Predicates and sample states used in the statements\<close>

text \<open>The capability probe would report the device as available.\<close>

definition probe_available :: "world \<Rightarrow> bool" where
  "probe_available w =
     (case supportedBiometry (device w) of Inr (Some t) \<Rightarrow> True | _ \<Rightarrow> False)"

text \<open>The call \<open>m\<close> in state \<open>w\<close> returns (does not throw) a value that satisfies \<open>P\<close>.\<close>

definition io_returns :: "'a io \<Rightarrow> world \<Rightarrow> ('a \<Rightarrow> bool) \<Rightarrow> bool" where
  "io_returns m w P = (case fst (m w) of Inl e \<Rightarrow> False | Inr v \<Rightarrow> P v)"

text \<open>The invariant of a result: cancelled implies failed, credentials imply success.\<close>

definition result_invariant :: "BiometricAuthResult \<Rightarrow> bool" where
  "result_invariant r =
     ((cancelled r = Some True \<longrightarrow> \<not> success r) \<and> (credentials r \<noteq> None \<longrightarrow> success r))"

text \<open>
  At most one of: an attempt made, a timer pending; and either only after the latch is
  set.
\<close>

definition latch_invariant :: "LoginScreen \<Rightarrow> bool" where
  "latch_invariant s =
     (autoAttempts s + (if timer s then 1 else 0) \<le> (if autoAttemptedRef s then 1 else 0))"

text \<open>A device on which every call succeeds, and one on which every call rejects.\<close>

definition working_device :: device where
  "working_device =
     \<lparr>supportedBiometry = Inr (Some FINGERPRINT), setOutcome = None, getChallenge = None,
      hasOutcome = None, resetOutcome = Inr True, getAllKeysOutcome = None,
      multiRemoveOutcome = None\<rparr>"

definition failing_device :: device where
  "failing_device =
     \<lparr>supportedBiometry = Inl (JsExn (Some ''Keychain unavailable'') ''Error: Keychain unavailable''),
      setOutcome = Some (JsExn (Some ''Storage full'') ''Error: Storage full''),
      getChallenge = Some (JsExn (Some ''User canceled the operation.'')
                                 ''Error: User canceled the operation.''),
      hasOutcome = Some (JsExn (Some ''Keychain unavailable'') ''Error: Keychain unavailable''),
      resetOutcome = Inl (JsExn (Some ''Keychain unavailable'') ''Error: Keychain unavailable''),
      getAllKeysOutcome = Some (JsExn (Some ''Storage unavailable'') ''Error: Storage unavailable''),
      multiRemoveOutcome = Some (JsExn (Some ''Storage unavailable'') ''Error: Storage unavailable'')\<rparr>"

text \<open>A device on which the user dismisses the biometric prompt.\<close>

definition cancelling_device :: device where
  "cancelling_device =
     working_device\<lparr>getChallenge := Some (JsExn (Some ''User canceled the operation.'')
                                                ''Error: User canceled the operation.'')\<rparr>"

text \<open>The state at start-up, as the \<open>useState\<close> calls initialise it, on a given device.\<close>

definition initial_world :: "device \<Rightarrow> world" where
  "initial_world d =
     \<lparr>device = d, slot = None, storage = [], st_isAvailable = False,
      st_hasStoredCredentials = False, user = None, isLoading = False, trace = []\<rparr>"

text \<open>A signed-in user with biometric login enabled and some preferences stored.\<close>

definition signed_in_world :: "device \<Rightarrow> world" where
  "signed_in_world d =
     \<lparr>device = d, slot = Some \<lparr>username = ''admin'', password = ''password123''\<rparr>,
      storage = [(''last_username'', ''admin''), (''biometric_prompt_shown'', ''true'')],
      st_isAvailable = True, st_hasStoredCredentials = True,
      user = Some \<lparr>user_id = ''1'', user_username = ''admin'', user_email = ''admin@example.com''\<rparr>,
      isLoading = False, trace = []\<rparr>"

text \<open>Capability available, credential present, nothing loading.\<close>

definition ready :: auth_context where
  "ready = \<lparr>isBiometricAvailable = True, hasBiometricCredentials = True,
            ctx_isLoading = False, isBiometricLoading = False\<rparr>"

section \<open>The error classifier: properties\<close>

lemma includes_iff_sublist: "str_includes s sub = sublist sub s"
  by (induction s) (auto simp: sublist_Cons_right)

lemma toLowerCase_fixed_prefix:
  "prefix k s \<Longrightarrow> toLowerCase k = k \<Longrightarrow> prefix k (toLowerCase s)"
  unfolding toLowerCase_def by (metis map_mono_prefix)

lemma includes_toLowerCase:
  "str_includes s k \<Longrightarrow> toLowerCase k = k \<Longrightarrow> str_includes (toLowerCase s) k"
proof (induction s)
  case Nil
  then show ?case by (simp add: toLowerCase_def)
next
  case (Cons c cs)
  from Cons.prems(1) have "prefix k (c # cs) \<or> str_includes cs k" by simp
  then show ?case
  proof
    assume "prefix k (c # cs)"
    then have "prefix k (toLowerCase (c # cs))"
      using Cons.prems(2) by (rule toLowerCase_fixed_prefix)
    then show ?thesis by (simp add: toLowerCase_def)
  next
    assume "str_includes cs k"
    then have "str_includes (toLowerCase cs) k" using Cons by simp
    then show ?thesis by (simp add: toLowerCase_def)
  qed
qed

lemma includes_user_cancel: "str_includes s ''user cancel'' \<Longrightarrow> str_includes s ''cancel''"
proof -
  assume "str_includes s ''user cancel''"
  moreover have "sublist ''cancel'' (''user '' @ ''cancel'' @ [])" by (rule sublist_appendI)
  ultimately show ?thesis
    unfolding includes_iff_sublist by (auto intro: sublist_order.order.trans)
qed

lemma showErrorDialog_cancelled:
  "code err = ''USER_CANCELLED'' \<Longrightarrow> showErrorDialog err bt onRetry onFallback = None"
  by (simp add: showErrorDialog_def)

text \<open>
  C1 (as the code has it).  The classifier is a first-match-wins chain over the
  lower-cased message.  A message whose lower-cased form contains \<open>failed\<close> and none of
  the keywords of the three earlier rules (\<open>cancel\<close>, \<open>not available\<close>,
  \<open>not supported\<close>, \<open>not enrolled\<close>, \<open>no biometric\<close>) is classified \<open>AUTH_FAILED\<close>,
  whatever keywords of the later rules (\<open>too many\<close>, \<open>lockout\<close>, \<open>hardware\<close>,
  \<open>sensor\<close>, \<open>system\<close>, \<open>internal\<close>) it also contains.
\<close>

theorem parseError_failed_before_later_rules:
  assumes "str_includes (toLowerCase (errorMessageOf e)) ''failed''"
    and "\<not> str_includes (toLowerCase (errorMessageOf e)) ''cancel''"
    and "\<not> str_includes (toLowerCase (errorMessageOf e)) ''not available''"
    and "\<not> str_includes (toLowerCase (errorMessageOf e)) ''not supported''"
    and "\<not> str_includes (toLowerCase (errorMessageOf e)) ''not enrolled''"
    and "\<not> str_includes (toLowerCase (errorMessageOf e)) ''no biometric''"
  shows "code (parseError e) = ''AUTH_FAILED''"
proof -
  have "\<not> str_includes (toLowerCase (errorMessageOf e)) ''user cancel''"
    using assms(2) includes_user_cancel by blast
  with assms show ?thesis
    by (simp add: parseError_def Let_def)
qed

text \<open>
  The instance the specification pins: \<open>Authentication failed: sensor timeout\<close>
  contains \<open>failed\<close> (rule 4) and \<open>sensor\<close> (rule 6) and is classified \<open>AUTH_FAILED\<close>.
\<close>

theorem parseError_failed_before_later_rules_witness:
  "str_includes (toLowerCase (errorMessageOf (JsString ''Authentication failed: sensor timeout''))) ''failed''
   \<and> str_includes (toLowerCase (errorMessageOf (JsString ''Authentication failed: sensor timeout''))) ''sensor''
   \<and> code (parseError (JsString ''Authentication failed: sensor timeout'')) = ''AUTH_FAILED''"
proof -
  let ?m = "toLowerCase (errorMessageOf (JsString ''Authentication failed: sensor timeout''))"
  have m: "?m = ''authentication failed: sensor timeout''"
    by code_simp
  have h1: "str_includes ?m ''failed''" unfolding m by simp
  have h2: "\<not> str_includes ?m ''cancel''" unfolding m by simp
  have h3: "\<not> str_includes ?m ''not available''" unfolding m by simp
  have h4: "\<not> str_includes ?m ''not supported''" unfolding m by simp
  have h5: "\<not> str_includes ?m ''not enrolled''" unfolding m by simp
  have h6: "\<not> str_includes ?m ''no biometric''" unfolding m by simp
  have h7: "str_includes ?m ''sensor''" unfolding m by simp
  from parseError_failed_before_later_rules [OF h1 h2 h3 h4 h5 h6] h1 h7
  show ?thesis by blast
qed

text \<open>
  C1 as the claim words it, for every string that contains \<open>failed\<close>, does not hold:
  an earlier rule wins in the same way.  \<open>Authentication failed: cancelled by user\<close>
  contains \<open>failed\<close> and is classified \<open>USER_CANCELLED\<close> by rule 1.
\<close>

theorem parseError_failed_counterexample:
  "str_includes ''Authentication failed: cancelled by user'' ''failed''
   \<and> code (parseError (JsString ''Authentication failed: cancelled by user'')) = ''USER_CANCELLED''
   \<and> code (parseError (JsString ''Authentication failed: cancelled by user'')) \<noteq> ''AUTH_FAILED''"
proof -
  have m: "toLowerCase (errorMessageOf (JsString ''Authentication failed: cancelled by user''))
             = ''authentication failed: cancelled by user''"
    by code_simp
  have c: "str_includes ''authentication failed: cancelled by user'' ''cancel''" by simp
  have "code (parseError (JsString ''Authentication failed: cancelled by user'')) = ''USER_CANCELLED''"
    unfolding parseError_def Let_def m using c by simp
  moreover have "str_includes ''Authentication failed: cancelled by user'' ''failed''" by simp
  ultimately show ?thesis by simp
qed

text \<open>
  C2.  Every error whose lower-cased message contains \<open>cancel\<close> is classified
  \<open>USER_CANCELLED\<close>, and \<open>showErrorDialog\<close> on it returns before it calls
  \<open>Alert.alert\<close>, as it does on every error whose code is \<open>USER_CANCELLED\<close>, whatever
  the biometry type and the handlers supplied.
\<close>

theorem parseError_cancel_no_dialog:
  assumes "str_includes (toLowerCase (errorMessageOf e)) ''cancel''"
  shows "code (parseError e) = ''USER_CANCELLED''
         \<and> showErrorDialog (parseError e) bt onRetry onFallback = None
         \<and> (\<forall>err. code err = ''USER_CANCELLED'' \<longrightarrow>
                showErrorDialog err bt onRetry onFallback = None)"
proof -
  from assms have c: "code (parseError e) = ''USER_CANCELLED''"
    by (simp add: parseError_def Let_def)
  then show ?thesis by (simp add: showErrorDialog_cancelled)
qed

theorem parseError_cancel_no_dialog_witness:
  "str_includes (toLowerCase (errorMessageOf (JsObject (Some ''User canceled the operation.'') ''Error: User canceled the operation.''))) ''cancel''
   \<and> code (parseError (JsObject (Some ''User canceled the operation.'') ''Error: User canceled the operation.'')) = ''USER_CANCELLED''
   \<and> showErrorDialog (parseError (JsObject (Some ''User canceled the operation.'') ''Error: User canceled the operation.''))
        (Some FINGERPRINT) (Some (1::nat)) (Some 2) = None"
proof -
  let ?e = "JsObject (Some ''User canceled the operation.'') ''Error: User canceled the operation.''"
  have m: "toLowerCase (errorMessageOf ?e) = ''user canceled the operation.''"
    by code_simp
  have h: "str_includes (toLowerCase (errorMessageOf ?e)) ''cancel''" unfolding m by simp
  from parseError_cancel_no_dialog [OF h, of "Some FINGERPRINT" "Some (1::nat)" "Some 2"] h
  show ?thesis by blast
qed

section \<open>The capability probe and the credential store: properties\<close>

lemmas io_defs = io_return_def io_bind_def io_try_def io_read_def

lemma getBiometricCapabilities_result:
  "getBiometricCapabilities w =
     (Inr (case supportedBiometry (device w) of
             Inl e \<Rightarrow> \<lparr>isAvailable = False, biometryType = None,
                       cap_error = Some (''Error checking biometric capabilities: '' @ exn_text e)\<rparr>
           | Inr None \<Rightarrow> \<lparr>isAvailable = False, biometryType = None,
                       cap_error = Some ''Biometric authentication is not available on this device''\<rparr>
           | Inr (Some t) \<Rightarrow> \<lparr>isAvailable = True, biometryType = Some t, cap_error = None\<rparr>),
      record_call GetSupportedBiometryType w)"
  by (simp add: getBiometricCapabilities_def Keychain_getSupportedBiometryType_def io_defs
           split: sum.splits option.splits)

text \<open>
  C9.  \<open>getBiometricCapabilities\<close> returns a capability record in every state and for
  every outcome of the query to the operating system, and never throws.  When the
  query throws, the record has \<open>isAvailable = false\<close> and an error message built from
  the thrown value; when the query answers \<open>null\<close>, it has \<open>isAvailable = false\<close> and a
  fixed message; otherwise it is available, with the biometry type reported.
\<close>

theorem getBiometricCapabilities_never_throws:
  "\<exists>c w'. getBiometricCapabilities w = (Inr c, w')
     \<and> (\<forall>e. supportedBiometry (device w) = Inl e \<longrightarrow>
            \<not> isAvailable c \<and> biometryType c = None
            \<and> cap_error c = Some (''Error checking biometric capabilities: '' @ exn_text e))
     \<and> (supportedBiometry (device w) = Inr None \<longrightarrow>
            \<not> isAvailable c \<and> biometryType c = None
            \<and> cap_error c = Some ''Biometric authentication is not available on this device'')
     \<and> (\<forall>t. supportedBiometry (device w) = Inr (Some t) \<longrightarrow>
            isAvailable c \<and> biometryType c = Some t \<and> cap_error c = None)"
  unfolding getBiometricCapabilities_result by simp

theorem getBiometricCapabilities_never_throws_witness:
  "fst (getBiometricCapabilities (initial_world failing_device)) =
     Inr \<lparr>isAvailable = False, biometryType = None,
          cap_error = Some ''Error checking biometric capabilities: Error: Keychain unavailable''\<rparr>
   \<and> fst (getBiometricCapabilities (initial_world (working_device\<lparr>supportedBiometry := Inr None\<rparr>))) =
     Inr \<lparr>isAvailable = False, biometryType = None,
          cap_error = Some ''Biometric authentication is not available on this device''\<rparr>
   \<and> fst (getBiometricCapabilities (initial_world working_device)) =
     Inr \<lparr>isAvailable = True, biometryType = Some FINGERPRINT, cap_error = None\<rparr>"
proof -
  have a: "supportedBiometry (device (initial_world failing_device)) =
             Inl (JsExn (Some ''Keychain unavailable'') ''Error: Keychain unavailable'')"
    by (simp add: initial_world_def failing_device_def)
  have b: "supportedBiometry (device (initial_world (working_device\<lparr>supportedBiometry := Inr None\<rparr>)))
             = Inr None"
    by (simp add: initial_world_def)
  have c: "supportedBiometry (device (initial_world working_device)) = Inr (Some FINGERPRINT)"
    by (simp add: initial_world_def working_device_def)
  from getBiometricCapabilities_never_throws [of "initial_world failing_device"] a
  have 1: "fst (getBiometricCapabilities (initial_world failing_device)) =
     Inr \<lparr>isAvailable = False, biometryType = None,
          cap_error = Some ''Error checking biometric capabilities: Error: Keychain unavailable''\<rparr>"
    by auto
  from getBiometricCapabilities_never_throws
         [of "initial_world (working_device\<lparr>supportedBiometry := Inr None\<rparr>)"] b
  have 2: "fst (getBiometricCapabilities (initial_world (working_device\<lparr>supportedBiometry := Inr None\<rparr>))) =
     Inr \<lparr>isAvailable = False, biometryType = None,
          cap_error = Some ''Biometric authentication is not available on this device''\<rparr>"
    by auto
  from getBiometricCapabilities_never_throws [of "initial_world working_device"] c
  have 3: "fst (getBiometricCapabilities (initial_world working_device)) =
     Inr \<lparr>isAvailable = True, biometryType = Some FINGERPRINT, cap_error = None\<rparr>"
    by auto
  from 1 2 3 show ?thesis by blast
qed

lemma getBiometricCapabilities_unavailable:
  "\<not> probe_available w \<Longrightarrow>
   \<exists>c. getBiometricCapabilities w = (Inr c, record_call GetSupportedBiometryType w) \<and> \<not> isAvailable c"
  unfolding getBiometricCapabilities_result probe_available_def
  by (simp split: sum.splits option.splits)

lemma getBiometricCapabilities_available:
  "supportedBiometry (device w) = Inr (Some t) \<Longrightarrow>
   getBiometricCapabilities w =
     (Inr \<lparr>isAvailable = True, biometryType = Some t, cap_error = None\<rparr>,
      record_call GetSupportedBiometryType w)"
  unfolding getBiometricCapabilities_result by simp

lemma storeCredentials_unavailable:
  assumes "\<not> probe_available w"
  shows "storeCredentials u p w =
           (Inr \<lparr>success = False, error = Some ''Biometric authentication is not available'',
                 cancelled = None, credentials = None\<rparr>,
            record_call GetSupportedBiometryType w)"
proof -
  from getBiometricCapabilities_unavailable [OF assms] obtain c where
    "getBiometricCapabilities w = (Inr c, record_call GetSupportedBiometryType w)" "\<not> isAvailable c"
    by blast
  then show ?thesis by (simp add: storeCredentials_def io_defs)
qed

text \<open>
  C4.  A call of the hook's \<open>storeCredentials\<close> while its state \<open>isAvailable\<close> is false
  returns a failure with the message \<open>Biometric authentication is not available on this
  device\<close> and leaves the whole state as it was: no native call is made, so nothing is
  written.  A call of the service's \<open>storeCredentials\<close> on a device whose capability
  probe does not report a biometry type returns a failure with the message
  \<open>Biometric authentication is not available\<close>; the one native call it makes is the
  probe, \<open>setGenericPassword\<close> is not called and the slot is unchanged.
\<close>

theorem store_when_unavailable:
  "(\<not> st_isAvailable w \<longrightarrow>
      useBiometricAuth_storeCredentials u p w =
        (Inr \<lparr>success = False,
              error = Some ''Biometric authentication is not available on this device'',
              cancelled = None, credentials = None\<rparr>, w))
   \<and> (\<not> probe_available w \<longrightarrow>
      (\<exists>w'. storeCredentials u p w =
               (Inr \<lparr>success = False, error = Some ''Biometric authentication is not available'',
                     cancelled = None, credentials = None\<rparr>, w')
            \<and> trace w' = trace w @ [Native GetSupportedBiometryType]
            \<and> slot w' = slot w))"
proof (intro conjI impI)
  assume "\<not> st_isAvailable w"
  then show "useBiometricAuth_storeCredentials u p w =
        (Inr \<lparr>success = False,
              error = Some ''Biometric authentication is not available on this device'',
              cancelled = None, credentials = None\<rparr>, w)"
    by (simp add: useBiometricAuth_storeCredentials_def io_defs)
next
  assume "\<not> probe_available w"
  then show "\<exists>w'. storeCredentials u p w =
               (Inr \<lparr>success = False, error = Some ''Biometric authentication is not available'',
                     cancelled = None, credentials = None\<rparr>, w')
            \<and> trace w' = trace w @ [Native GetSupportedBiometryType]
            \<and> slot w' = slot w"
    by (simp add: storeCredentials_unavailable record_call_def)
qed

theorem store_when_unavailable_witness:
  "\<not> st_isAvailable (initial_world working_device)
   \<and> useBiometricAuth_storeCredentials ''admin'' ''password123'' (initial_world working_device) =
        (Inr \<lparr>success = False,
              error = Some ''Biometric authentication is not available on this device'',
              cancelled = None, credentials = None\<rparr>, initial_world working_device)
   \<and> \<not> probe_available (initial_world failing_device)
   \<and> fst (storeCredentials ''admin'' ''password123'' (initial_world failing_device)) =
        Inr \<lparr>success = False, error = Some ''Biometric authentication is not available'',
             cancelled = None, credentials = None\<rparr>
   \<and> trace (snd (storeCredentials ''admin'' ''password123'' (initial_world failing_device))) =
        [Native GetSupportedBiometryType]
   \<and> slot (snd (storeCredentials ''admin'' ''password123'' (initial_world failing_device))) = None"
proof -
  have a: "\<not> st_isAvailable (initial_world working_device)"
    by (simp add: initial_world_def)
  have b: "\<not> probe_available (initial_world failing_device)"
    by (simp add: probe_available_def initial_world_def failing_device_def)
  have c: "trace (initial_world failing_device) = []" "slot (initial_world failing_device) = None"
    by (simp_all add: initial_world_def)
  from store_when_unavailable [of "initial_world working_device" "''admin''" "''password123''"] a
  have 1: "useBiometricAuth_storeCredentials ''admin'' ''password123'' (initial_world working_device) =
        (Inr \<lparr>success = False,
              error = Some ''Biometric authentication is not available on this device'',
              cancelled = None, credentials = None\<rparr>, initial_world working_device)"
    by blast
  from store_when_unavailable [of "initial_world failing_device" "''admin''" "''password123''"] b c
  have 2: "fst (storeCredentials ''admin'' ''password123'' (initial_world failing_device)) =
        Inr \<lparr>success = False, error = Some ''Biometric authentication is not available'',
             cancelled = None, credentials = None\<rparr>
   \<and> trace (snd (storeCredentials ''admin'' ''password123'' (initial_world failing_device))) =
        [Native GetSupportedBiometryType]
   \<and> slot (snd (storeCredentials ''admin'' ''password123'' (initial_world failing_device))) = None"
    by auto
  from a b 1 2 show ?thesis by blast
qed

text \<open>
  C3.  A call of \<open>authenticateWithBiometrics\<close> while \<open>hasStoredCredentials\<close> is false, or
  while \<open>isAvailable\<close> is false, returns a failure with an error message and no
  credentials, and leaves the whole state as it was: the trace gains no native call,
  so \<open>getGenericPassword\<close> is not invoked.
\<close>

theorem authenticate_without_credentials:
  assumes "\<not> st_hasStoredCredentials w \<or> \<not> st_isAvailable w"
  shows "\<exists>r. authenticateWithBiometrics w = (Inr r, w)
            \<and> \<not> success r \<and> error r \<noteq> None \<and> credentials r = None"
  using assms by (auto simp add: authenticateWithBiometrics_def io_defs)

theorem authenticate_without_credentials_witness:
  "\<not> st_hasStoredCredentials ((initial_world working_device)\<lparr>st_isAvailable := True\<rparr>)
   \<and> snd (authenticateWithBiometrics ((initial_world working_device)\<lparr>st_isAvailable := True\<rparr>))
       = (initial_world working_device)\<lparr>st_isAvailable := True\<rparr>
   \<and> trace (snd (authenticateWithBiometrics ((initial_world working_device)\<lparr>st_isAvailable := True\<rparr>)))
       = []
   \<and> io_returns authenticateWithBiometrics ((initial_world working_device)\<lparr>st_isAvailable := True\<rparr>)
       (\<lambda>r. \<not> success r \<and> credentials r = None)"
proof -
  let ?w = "(initial_world working_device)\<lparr>st_isAvailable := True\<rparr>"
  have h: "\<not> st_hasStoredCredentials ?w" by (simp add: initial_world_def)
  then have h': "\<not> st_hasStoredCredentials ?w \<or> \<not> st_isAvailable ?w" by (rule disjI1)
  have t: "trace ?w = []" by (simp add: initial_world_def)
  from authenticate_without_credentials [OF h'] obtain r where
    "authenticateWithBiometrics ?w = (Inr r, ?w)" "\<not> success r" "credentials r = None"
    by blast
  with h t show ?thesis by (simp add: io_returns_def)
qed

lemma storeCredentials_success_slot:
  assumes "storeCredentials u p w = (Inr r, w1)" and "success r"
  shows "slot w1 = Some \<lparr>username = u, password = p\<rparr>"
proof (cases "probe_available w")
  case False
  from storeCredentials_unavailable [OF False, of u p] assms show ?thesis by simp
next
  case True
  then obtain t where t: "supportedBiometry (device w) = Inr (Some t)"
    by (auto simp: probe_available_def split: sum.splits option.splits)
  show ?thesis
    using assms
    by (cases "setOutcome (device w)")
       (auto simp: storeCredentials_def getBiometricCapabilities_available [OF t] io_defs
                   Keychain_setGenericPassword_def record_call_def split: if_splits)
qed

lemma getStoredCredentials_challenge_passed:
  assumes "supportedBiometry (device w) = Inr (Some t)" and "getChallenge (device w) = None"
    and "slot w = Some \<lparr>username = u, password = p\<rparr>"
  shows "fst (getStoredCredentials w) =
           Inr \<lparr>success = True, error = None, cancelled = None,
                credentials = Some \<lparr>username = u, password = p\<rparr>\<rparr>"
  using assms(2,3)
  by (simp add: getStoredCredentials_def getBiometricCapabilities_available [OF assms(1)] io_defs
                Keychain_getGenericPassword_def record_call_def)

text \<open>
  C5.  Round trip.  If \<open>storeCredentials u p\<close> returns a result with \<open>success = true\<close>,
  then \<open>getStoredCredentials\<close> in the state it leaves, with the biometric challenge
  passed, returns success with exactly the credentials \<open>{username: u, password: p}\<close>.
  The device behaviour \<open>d\<close> at the time of the retrieval is any that reports a biometry
  type (without one \<open>getStoredCredentials\<close> makes no challenge) and passes the
  challenge.
\<close>

theorem store_then_retrieve_roundtrip:
  assumes "storeCredentials u p w = (Inr r, w1)" and "success r"
    and "supportedBiometry d = Inr (Some t)" and "getChallenge d = None"
  shows "fst (getStoredCredentials (w1\<lparr>device := d\<rparr>)) =
           Inr \<lparr>success = True, error = None, cancelled = None,
                credentials = Some \<lparr>username = u, password = p\<rparr>\<rparr>"
proof -
  have "slot (w1\<lparr>device := d\<rparr>) = Some \<lparr>username = u, password = p\<rparr>"
    using storeCredentials_success_slot [OF assms(1,2)] by simp
  moreover have "supportedBiometry (device (w1\<lparr>device := d\<rparr>)) = Inr (Some t)"
    using assms(3) by simp
  moreover have "getChallenge (device (w1\<lparr>device := d\<rparr>)) = None"
    using assms(4) by simp
  ultimately show ?thesis by (rule getStoredCredentials_challenge_passed [rotated 2])
qed

lemma store_admin_example:
  "storeCredentials ''admin'' ''password123'' (initial_world working_device) =
     (Inr \<lparr>success = True, error = None, cancelled = None, credentials = None\<rparr>,
      \<lparr>device = working_device, slot = Some \<lparr>username = ''admin'', password = ''password123''\<rparr>,
       storage = [], st_isAvailable = False, st_hasStoredCredentials = False, user = None,
       isLoading = False,
       trace = [Native GetSupportedBiometryType, Native (SetGenericPassword ''admin'' ''password123'')]\<rparr>)"
  by (simp add: storeCredentials_def getBiometricCapabilities_def Keychain_getSupportedBiometryType_def
        io_defs Keychain_setGenericPassword_def record_call_def initial_world_def working_device_def)

theorem store_then_retrieve_roundtrip_witness:
  "fst (storeCredentials ''admin'' ''password123'' (initial_world working_device)) =
     Inr \<lparr>success = True, error = None, cancelled = None, credentials = None\<rparr>
   \<and> fst (getStoredCredentials
          ((snd (storeCredentials ''admin'' ''password123'' (initial_world working_device)))
             \<lparr>device := working_device\<rparr>)) =
     Inr \<lparr>success = True, error = None, cancelled = None,
          credentials = Some \<lparr>username = ''admin'', password = ''password123''\<rparr>\<rparr>"
proof -
  have d1: "supportedBiometry working_device = Inr (Some FINGERPRINT)"
    by (simp add: working_device_def)
  have d2: "getChallenge working_device = None"
    by (simp add: working_device_def)
  show ?thesis
    using store_then_retrieve_roundtrip [OF store_admin_example _ d1 d2]
    by (simp add: store_admin_example)
qed

lemma storeCredentials_invariant:
  "io_returns (storeCredentials u p) w result_invariant"
  by (simp add: io_returns_def result_invariant_def storeCredentials_def
        getBiometricCapabilities_result io_defs Keychain_setGenericPassword_def
        split: sum.splits option.splits)

lemma getStoredCredentials_invariant:
  "io_returns getStoredCredentials w result_invariant"
  by (simp add: io_returns_def result_invariant_def getStoredCredentials_def
        getBiometricCapabilities_result io_defs Keychain_getGenericPassword_def
        split: sum.splits option.splits)

lemma io_returnsE:
  assumes "io_returns m w P"
  obtains v w' where "m w = (Inr v, w')" and "P v"
  using assms by (cases "m w") (auto simp: io_returns_def split: sum.splits)

lemma hasStoredCredentials_returns:
  "\<exists>b w'. hasStoredCredentials w = (Inr b, w')"
  by (cases "hasOutcome (device w)")
     (auto simp add: hasStoredCredentials_def io_defs Keychain_hasGenericPassword_def)

lemma useBiometricAuth_storeCredentials_invariant:
  "io_returns (useBiometricAuth_storeCredentials u p) w result_invariant"
proof (cases "st_isAvailable w")
  case False
  then show ?thesis
    by (simp add: io_returns_def result_invariant_def useBiometricAuth_storeCredentials_def io_defs)
next
  case True
  from storeCredentials_invariant [of u p w] obtain r w1 where
    r: "storeCredentials u p w = (Inr r, w1)" "result_invariant r"
    by (rule io_returnsE)
  from hasStoredCredentials_returns [of w1] obtain b w2 where
    b: "hasStoredCredentials w1 = (Inr b, w2)" by blast
  from True r b show ?thesis
    by (simp add: io_returns_def useBiometricAuth_storeCredentials_def io_defs
          setHasStoredCredentials_def)
qed

lemma authenticateWithBiometrics_invariant:
  "io_returns authenticateWithBiometrics w result_invariant"
proof (cases "st_isAvailable w \<and> st_hasStoredCredentials w")
  case False
  then show ?thesis
    by (auto simp add: io_returns_def result_invariant_def authenticateWithBiometrics_def io_defs)
next
  case True
  from getStoredCredentials_invariant [of w] obtain r w1 where
    "getStoredCredentials w = (Inr r, w1)" "result_invariant r"
    by (rule io_returnsE)
  with True show ?thesis
    by (simp add: io_returns_def authenticateWithBiometrics_def io_defs)
qed

text \<open>
  C6.  In every state and on every device, the service's \<open>storeCredentials\<close> and
  \<open>getStoredCredentials\<close> and the hook's \<open>storeCredentials\<close> and
  \<open>authenticateWithBiometrics\<close> return (none of them throws) a result in which
  \<open>cancelled = true\<close> implies \<open>success = false\<close>, and in which credentials are present
  only if \<open>success = true\<close>.
\<close>

theorem auth_results_invariant:
  "io_returns (storeCredentials u p) w result_invariant
   \<and> io_returns getStoredCredentials w result_invariant
   \<and> io_returns (useBiometricAuth_storeCredentials u p) w result_invariant
   \<and> io_returns authenticateWithBiometrics w result_invariant"
  by (simp add: storeCredentials_invariant getStoredCredentials_invariant
        useBiometricAuth_storeCredentials_invariant authenticateWithBiometrics_invariant)

theorem auth_results_invariant_witness:
  "io_returns getStoredCredentials (signed_in_world cancelling_device)
     (\<lambda>r. cancelled r = Some True \<and> \<not> success r)
   \<and> io_returns authenticateWithBiometrics (signed_in_world working_device)
     (\<lambda>r. credentials r = Some \<lparr>username = ''admin'', password = ''password123''\<rparr> \<and> success r)"
proof -
  have c: "str_includes ''User canceled the operation.'' ''cancel''" by simp
  have 1: "fst (getStoredCredentials (signed_in_world cancelling_device)) =
             Inr \<lparr>success = False, error = Some ''Authentication was cancelled by user'',
                  cancelled = Some True, credentials = None\<rparr>"
    using c
    by (simp add: getStoredCredentials_def getBiometricCapabilities_result io_defs
          Keychain_getGenericPassword_def record_call_def exn_is_cancel_def
          signed_in_world_def cancelling_device_def working_device_def)
  have 2: "fst (authenticateWithBiometrics (signed_in_world working_device)) =
             Inr \<lparr>success = True, error = None, cancelled = None,
                  credentials = Some \<lparr>username = ''admin'', password = ''password123''\<rparr>\<rparr>"
    by (simp add: authenticateWithBiometrics_def getStoredCredentials_def
          getBiometricCapabilities_result io_defs Keychain_getGenericPassword_def
          record_call_def signed_in_world_def working_device_def)
  from auth_results_invariant [of "''admin''" "''password123''" "signed_in_world cancelling_device"]
  have "io_returns getStoredCredentials (signed_in_world cancelling_device) result_invariant"
    by blast
  with 1 have a: "io_returns getStoredCredentials (signed_in_world cancelling_device)
     (\<lambda>r. cancelled r = Some True \<and> \<not> success r)"
    by (simp add: io_returns_def result_invariant_def)
  from auth_results_invariant [of "''admin''" "''password123''" "signed_in_world working_device"]
  have "io_returns authenticateWithBiometrics (signed_in_world working_device) result_invariant"
    by blast
  with 2 have b: "io_returns authenticateWithBiometrics (signed_in_world working_device)
     (\<lambda>r. credentials r = Some \<lparr>username = ''admin'', password = ''password123''\<rparr> \<and> success r)"
    by (simp add: io_returns_def result_invariant_def)
  from a b show ?thesis by blast
qed

section \<open>The session: properties\<close>

text \<open>
  C8.  \<open>login u p\<close> returns \<open>true\<close> exactly when \<open>u\<close> is \<open>admin\<close> and \<open>p\<close> is
  \<open>password123\<close>, and never throws.  When it returns \<open>true\<close> the session user is
  \<open>{id: '1', username: 'admin', email: 'admin@example.com'}\<close> and \<open>isAuthenticated\<close>
  is true; when it returns \<open>false\<close> the session user is left as it was, so no session
  is created.
\<close>

theorem login_mock_credentials:
  "\<exists>w'. login u p w = (Inr (u = ''admin'' \<and> p = ''password123''), w')
      \<and> (u = ''admin'' \<and> p = ''password123'' \<longrightarrow>
            user w' = Some \<lparr>user_id = ''1'', user_username = ''admin'',
                             user_email = ''admin@example.com''\<rparr>
            \<and> isAuthenticated w')
      \<and> (\<not> (u = ''admin'' \<and> p = ''password123'') \<longrightarrow>
            user w' = user w \<and> isAuthenticated w' = isAuthenticated w)"
  by (cases "u = ''admin'' \<and> p = ''password123''")
     (auto simp add: login_def MOCK_CREDENTIALS_def io_defs setIsLoading_def setUser_def
        isAuthenticated_def)

theorem login_mock_credentials_witness:
  "fst (login ''admin'' ''password123'' (initial_world working_device)) = Inr True
   \<and> user (snd (login ''admin'' ''password123'' (initial_world working_device)))
       = Some \<lparr>user_id = ''1'', user_username = ''admin'', user_email = ''admin@example.com''\<rparr>
   \<and> isAuthenticated (snd (login ''admin'' ''password123'' (initial_world working_device)))
   \<and> fst (login ''admin'' ''wrong'' (initial_world working_device)) = Inr False
   \<and> user (snd (login ''admin'' ''wrong'' (initial_world working_device))) = None
   \<and> \<not> isAuthenticated (snd (login ''admin'' ''wrong'' (initial_world working_device)))"
proof -
  have init: "user (initial_world working_device) = None"
    "\<not> isAuthenticated (initial_world working_device)"
    by (simp_all add: initial_world_def isAuthenticated_def)
  from login_mock_credentials [of "''admin''" "''password123''" "initial_world working_device"]
  have ok: "fst (login ''admin'' ''password123'' (initial_world working_device)) = Inr True
   \<and> user (snd (login ''admin'' ''password123'' (initial_world working_device)))
       = Some \<lparr>user_id = ''1'', user_username = ''admin'', user_email = ''admin@example.com''\<rparr>
   \<and> isAuthenticated (snd (login ''admin'' ''password123'' (initial_world working_device)))"
    by auto
  from login_mock_credentials [of "''admin''" "''wrong''" "initial_world working_device"] init
  have bad: "fst (login ''admin'' ''wrong'' (initial_world working_device)) = Inr False
   \<and> user (snd (login ''admin'' ''wrong'' (initial_world working_device))) = None
   \<and> \<not> isAuthenticated (snd (login ''admin'' ''wrong'' (initial_world working_device)))"
    by auto
  from ok bad show ?thesis by blast
qed

lemma useBiometricAuth_removeStoredCredentials_returns:
  "\<exists>r w'. useBiometricAuth_removeStoredCredentials w = (Inr r, w')
      \<and> user w' = user w
      \<and> (\<exists>rest. trace w' = trace w @ Native ResetGenericPassword # rest
                 \<and> (\<forall>u. SetUser u \<notin> set rest))"
  by (cases "resetOutcome (device w)")
     (auto simp add: useBiometricAuth_removeStoredCredentials_def removeStoredCredentials_def
        io_defs Keychain_resetGenericPassword_def setHasStoredCredentials_def record_call_def)

lemma clearAllAppData_returns:
  "\<exists>w'. clearAllAppData w = (Inr (), w')
      \<and> user w' = user w
      \<and> (\<exists>rest. trace w' = trace w @ Native GetAllKeys # rest
                 \<and> (\<forall>u. SetUser u \<notin> set rest))"
  by (cases "getAllKeysOutcome (device w)"; cases "multiRemoveOutcome (device w)")
     (auto simp add: clearAllAppData_def io_defs AsyncStorage_getAllKeys_def
        AsyncStorage_multiRemove_def record_call_def)

lemma checkStoredCredentials_returns:
  "\<exists>w'. checkStoredCredentials w = (Inr (), w')
      \<and> user w' = user w
      \<and> (\<exists>rest. trace w' = trace w @ Native HasGenericPassword # rest
                 \<and> (\<forall>u. SetUser u \<notin> set rest))"
  by (cases "hasOutcome (device w)")
     (auto simp add: checkStoredCredentials_def hasStoredCredentials_def io_defs
        Keychain_hasGenericPassword_def setHasStoredCredentials_def record_call_def)

text \<open>
  C7.  In every state and on every device, whatever the keychain and the preference
  storage do (succeed or throw), \<open>logout\<close> returns without throwing and leaves
  \<open>user = null\<close>, so \<open>isAuthenticated\<close> is false.  The first thing it does is
  \<open>setUser(null)\<close>: the calls that remove the credential (\<open>resetGenericPassword\<close>),
  clear the preferences (\<open>getAllKeys\<close>) and refresh the state (\<open>hasGenericPassword\<close>)
  all come after it in the trace, and nothing after it sets the user again.
\<close>

theorem logout_always_completes:
  "\<exists>w' rest. logout w = (Inr (), w')
      \<and> user w' = None \<and> \<not> isAuthenticated w'
      \<and> trace w' = trace w @ SetUser None # rest
      \<and> (\<forall>u. SetUser u \<notin> set rest)
      \<and> Native ResetGenericPassword \<in> set rest
      \<and> Native GetAllKeys \<in> set rest
      \<and> Native HasGenericPassword \<in> set rest"
proof -
  obtain w0 where w0: "setUser None w = (Inr (), w0)" "user w0 = None"
    "trace w0 = trace w @ [SetUser None]"
    by (simp add: setUser_def)
  from useBiometricAuth_removeStoredCredentials_returns [of w0] obtain r w1 r1 where
    w1: "useBiometricAuth_removeStoredCredentials w0 = (Inr r, w1)" "user w1 = user w0"
      "trace w1 = trace w0 @ Native ResetGenericPassword # r1" "\<forall>u. SetUser u \<notin> set r1"
    by blast
  from clearAllAppData_returns [of w1] obtain w2 r2 where
    w2: "clearAllAppData w1 = (Inr (), w2)" "user w2 = user w1"
      "trace w2 = trace w1 @ Native GetAllKeys # r2" "\<forall>u. SetUser u \<notin> set r2"
    by blast
  from checkStoredCredentials_returns [of w2] obtain w3 r3 where
    w3: "checkStoredCredentials w2 = (Inr (), w3)" "user w3 = user w2"
      "trace w3 = trace w2 @ Native HasGenericPassword # r3" "\<forall>u. SetUser u \<notin> set r3"
    by blast
  let ?rest = "Native ResetGenericPassword # r1 @ Native GetAllKeys # r2
                 @ Native HasGenericPassword # r3"
  have run: "logout w = (Inr (), w3)"
    using w0(1) w1(1) w2(1) w3(1) by (simp add: logout_def io_defs)
  have usr: "user w3 = None"
    using w0(2) w1(2) w2(2) w3(2) by simp
  have tr: "trace w3 = trace w @ SetUser None # ?rest"
    using w0(3) w1(3) w2(3) w3(3) by simp
  have nouser: "\<forall>u. SetUser u \<notin> set ?rest"
    using w1(4) w2(4) w3(4) by simp
  show ?thesis
    using run usr tr nouser by (auto simp add: isAuthenticated_def)
qed

text \<open>
  The same on a device where the removal of the credential, the listing of the
  preference keys and the existence check all throw: \<open>logout\<close> of a signed-in user
  returns, with the user cleared first.
\<close>

theorem logout_always_completes_witness:
  "isAuthenticated (signed_in_world failing_device)
   \<and> fst (logout (signed_in_world failing_device)) = Inr ()
   \<and> user (snd (logout (signed_in_world failing_device))) = None
   \<and> \<not> isAuthenticated (snd (logout (signed_in_world failing_device)))
   \<and> hd (trace (snd (logout (signed_in_world failing_device)))) = SetUser None"
proof -
  have a: "isAuthenticated (signed_in_world failing_device)"
    "trace (signed_in_world failing_device) = []"
    by (simp_all add: isAuthenticated_def signed_in_world_def)
  from logout_always_completes [of "signed_in_world failing_device"] a
  show ?thesis by auto
qed

section \<open>The automatic biometric attempt: properties\<close>

lemma latch_invariant_step: "latch_invariant s \<Longrightarrow> latch_invariant (screen_step s ev)"
  by (cases ev)
     (auto simp add: latch_invariant_def autoAttemptEffect_def runCleanup_def timerFires_def
           split: if_splits)

lemma latch_invariant_foldl: "latch_invariant s \<Longrightarrow> latch_invariant (foldl screen_step s evs)"
  by (induction evs arbitrary: s) (simp_all add: latch_invariant_step)

text \<open>
  The half of C10 that holds: over every sequence of evaluations of the effect, timer
  expiries, button presses and unmounts, the timer calls \<open>handleBiometricLogin\<close> at
  most once.
\<close>

lemma auto_attempt_at_most_once: "autoAttempts (screen_run evs) \<le> 1"
proof -
  have "latch_invariant initial_screen" by (simp add: latch_invariant_def initial_screen_def)
  then have "latch_invariant (screen_run evs)"
    unfolding screen_run_def by (rule latch_invariant_foldl)
  then show ?thesis by (simp add: latch_invariant_def split: if_splits)
qed

text \<open>
  The latch is set in the run of the effect that starts the timer, before any attempt
  is made.
\<close>

lemma latch_set_before_attempt:
  "autoAttemptedRef (screen_run [Evaluate ready])
   \<and> timer (screen_run [Evaluate ready])
   \<and> autoAttempts (screen_run [Evaluate ready]) = 0"
  by (simp add: screen_run_def autoAttemptEffect_def runCleanup_def initial_screen_def ready_def)

text \<open>When the effect is not evaluated again before the delay is over, the attempt is made.\<close>

lemma auto_attempt_undisturbed:
  "autoAttempts (screen_run [Evaluate ready, DelayElapsed, Evaluate ready, Evaluate ready]) = 1"
  by (simp add: screen_run_def autoAttemptEffect_def runCleanup_def timerFires_def
        initial_screen_def ready_def)

text \<open>
  C10 (the code at the input where it departs from the claim).  Capability available,
  credential present, nothing loading, and the effect evaluated three times before the
  delay of 500 ms is over: the first evaluation sets the latch and starts the timer;
  the second begins with the cleanup of the first, which clears the timer, and finds
  the latch set, so it starts no new timer; when the delay is over no timer is pending.
  No automatic attempt is made, and the latch stays set, so none will be.
\<close>

theorem auto_attempt_lost_on_reevaluation:
  "autoAttempts (screen_run [Evaluate ready, Evaluate ready, Evaluate ready, DelayElapsed]) = 0
   \<and> autoAttemptedRef (screen_run [Evaluate ready, Evaluate ready, Evaluate ready, DelayElapsed])
   \<and> \<not> timer (screen_run [Evaluate ready, Evaluate ready, Evaluate ready, DelayElapsed])"
  by (simp add: screen_run_def autoAttemptEffect_def runCleanup_def timerFires_def
        initial_screen_def ready_def)

end
